theory Spec2Isabelle
  imports Main
begin

section \<open>JavaScript strings and numbers as the components use them\<close>

text \<open>
  A string is a list of characters. The only string operations of the components are
  equality (\<open>===\<close>), truthiness (\<open>!s\<close> holds exactly for the empty string),
  \<open>String.prototype.trim\<close> and \<open>Number.prototype.toString\<close> on a millisecond count.
  \<open>trim\<close> strips white space and line terminators from both ends; of the characters a
  \<open>char\<close> can hold these are TAB, LF, VT, FF, CR, SPACE and NBSP.
\<close>

definition isWhiteSpace :: "char \<Rightarrow> bool" where
  "isWhiteSpace c = (of_char c \<in> {9, 10, 11, 12, 13, 32, 160 :: nat})"

definition trim :: "string \<Rightarrow> string" where
  "trim s = rev (dropWhile isWhiteSpace (rev (dropWhile isWhiteSpace s)))"

definition digit :: "nat \<Rightarrow> char" where
  "digit d = ''0123456789'' ! d"

function toString :: "nat \<Rightarrow> string" where
  "toString n = (if n < 10 then [digit n] else toString (n div 10) @ [digit (n mod 10)])"
  by pat_completeness auto
termination
  by (relation "measure (\<lambda>n. n)") auto

declare toString.simps [simp del]


section \<open>ChatSection\<close>

text \<open>
  The component state is the three \<open>useState\<close> cells \<open>messages\<close>, \<open>inputMessage\<close>
  and \<open>isLoading\<close>. Around it runs the browser: \<open>now\<close> is the millisecond clock that
  \<open>Date.now()\<close> and \<open>new Date()\<close> read, and \<open>timers\<close> holds the due time of every
  \<open>setTimeout\<close> callback that has been scheduled and has not run yet, in the order of
  scheduling. All callbacks of this component are the same arrow function, so the due time
  identifies one.
\<close>

datatype author = user | agent

record ChatMessage =
  id_msg :: string
  type_msg :: author
  content :: string
  timestamp :: nat

record ChatSection =
  messages :: "ChatMessage list"
  inputMessage :: string
  isLoading :: bool
  now :: nat
  timers :: "nat list"

definition greeting :: string where
  "greeting = ''Hello! I'm your GlucoGuide Agent. I can help you understand your blood sugar patterns, simulate meal impacts, and provide personalized insights. What would you like to know?''"

definition demoResponse :: string where
  "demoResponse = ''I understand your question about glucose patterns. Based on typical patterns, let me analyze this for you. This is a demo response - in the full version, I'd connect to your AWS Bedrock agent for personalized insights.''"

text \<open>The state on mount, at clock value \<open>t\<close>.\<close>

definition mount :: "nat \<Rightarrow> ChatSection" where
  "mount t =
     \<lparr>messages = [\<lparr>id_msg = ''1'', type_msg = agent, content = greeting, timestamp = t\<rparr>],
      inputMessage = '''',
      isLoading = False,
      now = t,
      timers = []\<rparr>"

text \<open>The callback handed to \<open>setTimeout\<close>: it reads the clock when it runs.\<close>

definition agentResponse :: "ChatSection \<Rightarrow> ChatMessage" where
  "agentResponse s =
     \<lparr>id_msg = toString (now s + 1), type_msg = agent, content = demoResponse,
      timestamp = now s\<rparr>"

definition onTimeout :: "ChatSection \<Rightarrow> ChatSection" where
  "onTimeout s = s\<lparr>messages := messages s @ [agentResponse s], isLoading := False\<rparr>"

definition userMessage :: "ChatSection \<Rightarrow> ChatMessage" where
  "userMessage s =
     \<lparr>id_msg = toString (now s), type_msg = user, content = inputMessage s,
      timestamp = now s\<rparr>"

text \<open>\<open>handleSendMessage\<close>: its only guard is the blank draft.\<close>

definition handleSendMessage :: "ChatSection \<Rightarrow> ChatSection" where
  "handleSendMessage s =
     (if trim (inputMessage s) = [] then s
      else s\<lparr>messages := messages s @ [userMessage s],
             inputMessage := '''',
             isLoading := True,
             timers := timers s @ [now s + 1000]\<rparr>)"

definition setInputMessage :: "string \<Rightarrow> ChatSection \<Rightarrow> ChatSection" where
  "setInputMessage text s = s\<lparr>inputMessage := text\<rparr>"

text \<open>The three quick actions only overwrite the draft.\<close>

definition quickActions :: "(string \<times> string) list" where
  "quickActions =
     [(''Simulate Meal'', ''Simulate the impact of my typical breakfast''),
      (''Weekly Trends'', ''Show me my glucose trends from this week''),
      (''Why did I spike?'', ''Why did my glucose spike last night after dinner?'')]"

definition quickAction_onClick :: "nat \<Rightarrow> ChatSection \<Rightarrow> ChatSection" where
  "quickAction_onClick i s =
     (if i < length quickActions then setInputMessage (snd (quickActions ! i)) s else s)"

text \<open>
  The two ways to send. The input field calls the handler on every Enter key press; the
  button is disabled on a blank draft or while loading, and a disabled button delivers no
  click.
\<close>

definition onKeyPress :: "string \<Rightarrow> ChatSection \<Rightarrow> ChatSection" where
  "onKeyPress key s = (if key = ''Enter'' then handleSendMessage s else s)"

definition sendButton_disabled :: "ChatSection \<Rightarrow> bool" where
  "sendButton_disabled s = (trim (inputMessage s) = [] \<or> isLoading s)"

definition sendButton_onClick :: "ChatSection \<Rightarrow> ChatSection" where
  "sendButton_onClick s = (if sendButton_disabled s then s else handleSendMessage s)"

text \<open>
  Time passing: \<open>elapse ms\<close> moves the clock forward by \<open>ms\<close> milliseconds and runs,
  in scheduling order and each at its due time, every callback that has become due.
\<close>

definition fire :: "ChatSection \<Rightarrow> nat \<Rightarrow> ChatSection" where
  "fire s due = onTimeout (s\<lparr>now := due\<rparr>)"

definition elapse :: "nat \<Rightarrow> ChatSection \<Rightarrow> ChatSection" where
  "elapse ms s =
     (let t = now s + ms
      in (foldl fire s (filter (\<lambda>due. due \<le> t) (timers s)))
           \<lparr>now := t, timers := filter (\<lambda>due. t < due) (timers s)\<rparr>)"

text \<open>A schedule is a list of user events and waits, run from left to right.\<close>

datatype event =
    Change string
  | KeyPress string
  | ClickSend
  | ClickQuickAction nat
  | Elapse nat

fun step :: "ChatSection \<Rightarrow> event \<Rightarrow> ChatSection" where
  "step s (Change text) = setInputMessage text s"
| "step s (KeyPress key) = onKeyPress key s"
| "step s ClickSend = sendButton_onClick s"
| "step s (ClickQuickAction i) = quickAction_onClick i s"
| "step s (Elapse ms) = elapse ms s"

definition run :: "event list \<Rightarrow> ChatSection \<Rightarrow> ChatSection" where
  "run evs s = foldl step s evs"


section \<open>MealSimulator\<close>

text \<open>
  The component state is \<open>mealForm\<close>, \<open>isSimulating\<close> and \<open>showPrediction\<close>; the
  clock and the pending \<open>setTimeout\<close> callbacks are kept beside it as for the chat.
  The form fields are the strings the inputs hold.
\<close>

record MealForm =
  description :: string
  carbs :: string
  gi :: string
  insulin :: string

record MealSimulator =
  mealForm :: MealForm
  isSimulating :: bool
  showPrediction :: bool
  now_sim :: nat
  timers_sim :: "nat list"

record PredictionPoint =
  time :: int
  predicted_glucose :: int
  baseline :: int

definition predictionData :: "PredictionPoint list" where
  "predictionData =
     [\<lparr>time = 0, predicted_glucose = 95, baseline = 95\<rparr>,
      \<lparr>time = 15, predicted_glucose = 98, baseline = 95\<rparr>,
      \<lparr>time = 30, predicted_glucose = 115, baseline = 95\<rparr>,
      \<lparr>time = 45, predicted_glucose = 135, baseline = 95\<rparr>,
      \<lparr>time = 60, predicted_glucose = 155, baseline = 95\<rparr>,
      \<lparr>time = 75, predicted_glucose = 145, baseline = 95\<rparr>,
      \<lparr>time = 90, predicted_glucose = 130, baseline = 95\<rparr>,
      \<lparr>time = 105, predicted_glucose = 120, baseline = 95\<rparr>,
      \<lparr>time = 120, predicted_glucose = 110, baseline = 95\<rparr>,
      \<lparr>time = 135, predicted_glucose = 105, baseline = 95\<rparr>,
      \<lparr>time = 150, predicted_glucose = 100, baseline = 95\<rparr>,
      \<lparr>time = 165, predicted_glucose = 98, baseline = 95\<rparr>,
      \<lparr>time = 180, predicted_glucose = 95, baseline = 95\<rparr>]"

record PresetMeal =
  name :: string
  carbs_preset :: string
  gi_preset :: string

definition presetMeals :: "PresetMeal list" where
  "presetMeals =
     [\<lparr>name = ''Oatmeal with Banana'', carbs_preset = ''45'', gi_preset = ''medium''\<rparr>,
      \<lparr>name = ''White Bread Toast (2 slices)'', carbs_preset = ''30'', gi_preset = ''high''\<rparr>,
      \<lparr>name = ''Greek Yogurt with Berries'', carbs_preset = ''20'', gi_preset = ''low''\<rparr>,
      \<lparr>name = ''Pasta with Tomato Sauce'', carbs_preset = ''60'', gi_preset = ''medium''\<rparr>]"

definition mount_sim :: "nat \<Rightarrow> MealSimulator" where
  "mount_sim t =
     \<lparr>mealForm = \<lparr>description = '''', carbs = '''', gi = '''', insulin = ''''\<rparr>,
      isSimulating = False,
      showPrediction = False,
      now_sim = t,
      timers_sim = []\<rparr>"

text \<open>\<open>handleSimulate\<close> checks the two required fields only.\<close>

definition handleSimulate :: "MealSimulator \<Rightarrow> MealSimulator" where
  "handleSimulate s =
     (if description (mealForm s) = [] \<or> carbs (mealForm s) = [] then s
      else s\<lparr>isSimulating := True, timers_sim := timers_sim s @ [now_sim s + 2000]\<rparr>)"

definition onTimeout_sim :: "MealSimulator \<Rightarrow> MealSimulator" where
  "onTimeout_sim s = s\<lparr>isSimulating := False, showPrediction := True\<rparr>"

datatype field = Description | Carbs | Gi | Insulin

fun assign :: "field \<Rightarrow> string \<Rightarrow> MealForm \<Rightarrow> MealForm" where
  "assign Description v f = f\<lparr>description := v\<rparr>"
| "assign Carbs v f = f\<lparr>carbs := v\<rparr>"
| "assign Gi v f = f\<lparr>gi := v\<rparr>"
| "assign Insulin v f = f\<lparr>insulin := v\<rparr>"

definition handleInputChange :: "field \<Rightarrow> string \<Rightarrow> MealSimulator \<Rightarrow> MealSimulator" where
  "handleInputChange fld v s = s\<lparr>mealForm := assign fld v (mealForm s)\<rparr>"

text \<open>
  The click handler of a preset button replaces the whole form by a fresh object literal,
  whose \<open>insulin\<close> is the empty string.
\<close>

definition preset_onClick :: "PresetMeal \<Rightarrow> MealSimulator \<Rightarrow> MealSimulator" where
  "preset_onClick meal s =
     s\<lparr>mealForm :=
         \<lparr>description = name meal, carbs = carbs_preset meal, gi = gi_preset meal,
          insulin = ''''\<rparr>\<rparr>"

text \<open>
  The Simulate Impact button is the only caller of \<open>handleSimulate\<close>. It is disabled
  when a required field is empty or a simulation is running.
\<close>

definition simulateButton_disabled :: "MealSimulator \<Rightarrow> bool" where
  "simulateButton_disabled s =
     (description (mealForm s) = [] \<or> carbs (mealForm s) = [] \<or> isSimulating s)"

definition simulateButton_onClick :: "MealSimulator \<Rightarrow> MealSimulator" where
  "simulateButton_onClick s = (if simulateButton_disabled s then s else handleSimulate s)"

definition fire_sim :: "MealSimulator \<Rightarrow> nat \<Rightarrow> MealSimulator" where
  "fire_sim s due = onTimeout_sim (s\<lparr>now_sim := due\<rparr>)"

definition elapse_sim :: "nat \<Rightarrow> MealSimulator \<Rightarrow> MealSimulator" where
  "elapse_sim ms s =
     (let t = now_sim s + ms
      in (foldl fire_sim s (filter (\<lambda>due. due \<le> t) (timers_sim s)))
           \<lparr>now_sim := t, timers_sim := filter (\<lambda>due. t < due) (timers_sim s)\<rparr>)"

text \<open>The prediction card is rendered, with the chart reading \<open>predictionData\<close>, exactly
  when \<open>showPrediction\<close> is set.\<close>

definition predictionChart :: "MealSimulator \<Rightarrow> PredictionPoint list option" where
  "predictionChart s = (if showPrediction s then Some predictionData else None)"


section \<open>TrendsSection\<close>

record GlucoseReading =
  time_of_day :: string
  glucose :: int
  meal :: "string option"

definition glucoseData :: "GlucoseReading list" where
  "glucoseData =
     [\<lparr>time_of_day = ''6:00'', glucose = 95, meal = None\<rparr>,
      \<lparr>time_of_day = ''7:00'', glucose = 110, meal = Some ''Breakfast''\<rparr>,
      \<lparr>time_of_day = ''8:00'', glucose = 145, meal = None\<rparr>,
      \<lparr>time_of_day = ''9:00'', glucose = 130, meal = None\<rparr>,
      \<lparr>time_of_day = ''10:00'', glucose = 115, meal = None\<rparr>,
      \<lparr>time_of_day = ''11:00'', glucose = 105, meal = None\<rparr>,
      \<lparr>time_of_day = ''12:00'', glucose = 98, meal = Some ''Lunch''\<rparr>,
      \<lparr>time_of_day = ''13:00'', glucose = 165, meal = None\<rparr>,
      \<lparr>time_of_day = ''14:00'', glucose = 140, meal = None\<rparr>,
      \<lparr>time_of_day = ''15:00'', glucose = 120, meal = None\<rparr>,
      \<lparr>time_of_day = ''16:00'', glucose = 108, meal = None\<rparr>,
      \<lparr>time_of_day = ''17:00'', glucose = 102, meal = None\<rparr>,
      \<lparr>time_of_day = ''18:00'', glucose = 95, meal = Some ''Dinner''\<rparr>,
      \<lparr>time_of_day = ''19:00'', glucose = 175, meal = None\<rparr>,
      \<lparr>time_of_day = ''20:00'', glucose = 155, meal = None\<rparr>,
      \<lparr>time_of_day = ''21:00'', glucose = 125, meal = None\<rparr>,
      \<lparr>time_of_day = ''22:00'', glucose = 110, meal = None\<rparr>]"

record DateRange =
  start :: string
  end_date :: string

record TrendsSection =
  dateRange :: DateRange
  mealFilter :: string

definition mount_trends :: TrendsSection where
  "mount_trends =
     \<lparr>dateRange = \<lparr>start = ''2025-01-20'', end_date = ''2025-01-25''\<rparr>,
      mealFilter = ''all''\<rparr>"

text \<open>The state setters; \<open>setDateRange\<close> is called with an updater of the previous value.\<close>

definition setDateRange :: "(DateRange \<Rightarrow> DateRange) \<Rightarrow> TrendsSection \<Rightarrow> TrendsSection" where
  "setDateRange upd s = s\<lparr>dateRange := upd (dateRange s)\<rparr>"

definition setMealFilter :: "string \<Rightarrow> TrendsSection \<Rightarrow> TrendsSection" where
  "setMealFilter v s = s\<lparr>mealFilter := v\<rparr>"

definition startInput_onChange :: "string \<Rightarrow> TrendsSection \<Rightarrow> TrendsSection" where
  "startInput_onChange v = setDateRange (\<lambda>prev. prev\<lparr>start := v\<rparr>)"

definition endInput_onChange :: "string \<Rightarrow> TrendsSection \<Rightarrow> TrendsSection" where
  "endInput_onChange v = setDateRange (\<lambda>prev. prev\<lparr>end_date := v\<rparr>)"

text \<open>
  What the component renders from its state: the values shown in the two date inputs and
  the select, the data handed to the line chart, and the texts of the three summary cards.
\<close>

record TrendsView =
  startInput :: string
  endInput :: string
  selectValue :: string
  chartData :: "GlucoseReading list"
  averageGlucose :: string
  timeInRange :: string
  glucoseVariability :: string

definition render_trends :: "TrendsSection \<Rightarrow> TrendsView" where
  "render_trends s =
     \<lparr>startInput = start (dateRange s),
      endInput = end_date (dateRange s),
      selectValue = mealFilter s,
      chartData = glucoseData,
      averageGlucose = ''118 mg/dL'',
      timeInRange = ''78%'',
      glucoseVariability = ''Medium''\<rparr>"


section \<open>AppSidebar\<close>

text \<open>\<open>isActive\<close> compares the current path with a menu item's path by \<open>===\<close>. The
  source closes over \<open>currentPath\<close>; here it is the first argument.\<close>

definition isActive :: "string \<Rightarrow> string \<Rightarrow> bool" where
  "isActive currentPath path = (currentPath = path)"


section \<open>Example schedules of the chat\<close>

text \<open>
  The component is mounted at clock value 1700000000000. In the first schedule the user
  sends ``a'' with the Enter key and types ``b'' while the reply is pending.
\<close>

definition pending_reply_example :: ChatSection where
  "pending_reply_example =
     run [Change ''a'', KeyPress ''Enter'', Change ''b''] (mount 1700000000000)"

text \<open>
  In the second the user sends ``a'', sends ``b'' with the Enter key 500 ms later while
  the first reply is pending, and 700 ms after that, when the first reply has arrived and
  the second has not, has typed ``c''.
\<close>

definition overlapping_replies_example :: ChatSection where
  "overlapping_replies_example =
     run [Change ''a'', KeyPress ''Enter'', Elapse 500, Change ''b'', KeyPress ''Enter'',
          Elapse 700, Change ''c'']
       (mount 1700000000000)"

text \<open>
  In the third the user sends ``a'' with the button five seconds after mount, types ``b''
  while waiting, and clicks the button again one millisecond after the reply has arrived.
\<close>

definition id_clash_schedule :: "event list" where
  "id_clash_schedule =
     [Elapse 5000, Change ''a'', ClickSend, Change ''b'', Elapse 1000, Elapse 1, ClickSend]"


section \<open>Blank drafts\<close>

lemma trim_blank_iff: "trim s = [] \<longleftrightarrow> (\<forall>c \<in> set s. isWhiteSpace c)"
proof
  assume "trim s = []"
  then have all: "\<forall>c \<in> set (dropWhile isWhiteSpace s). isWhiteSpace c"
    by (simp add: trim_def)
  have "dropWhile isWhiteSpace s = []"
  proof (rule ccontr)
    assume ne: "dropWhile isWhiteSpace s \<noteq> []"
    then have "\<not> isWhiteSpace (hd (dropWhile isWhiteSpace s))"
      by (rule hd_dropWhile)
    moreover have "hd (dropWhile isWhiteSpace s) \<in> set (dropWhile isWhiteSpace s)"
      using ne by (rule hd_in_set)
    ultimately show False
      using all by blast
  qed
  then show "\<forall>c \<in> set s. isWhiteSpace c"
    by simp
next
  assume "\<forall>c \<in> set s. isWhiteSpace c"
  then have d: "dropWhile isWhiteSpace s = []"
    by simp
  show "trim s = []"
    unfolding trim_def d by simp
qed

lemma not_blank_a: "trim ''a'' \<noteq> []"
  by (simp add: trim_blank_iff isWhiteSpace_def)

lemmas chat_defs =
  handleSendMessage_def onKeyPress_def sendButton_onClick_def sendButton_disabled_def
  setInputMessage_def quickAction_onClick_def elapse_def fire_def onTimeout_def
  userMessage_def agentResponse_def run_def mount_def

text \<open>
  C8. Sending a draft that is empty, or empty after trimming such as three spaces, does
  nothing: the handler returns at its first line, so the messages, the draft, the loading
  flag and the pending timers are all what they were. This holds for the handler itself
  and for both ways of reaching it, the Enter key and the send button.
\<close>

theorem blank_draft_send_is_noop:
  "trim (inputMessage s) = [] \<Longrightarrow>
     handleSendMessage s = s \<and> onKeyPress ''Enter'' s = s \<and> sendButton_onClick s = s"
  by (simp add: handleSendMessage_def onKeyPress_def sendButton_onClick_def)

theorem blank_draft_send_is_noop_witness:
  "trim (inputMessage (run [Change ''   ''] (mount 0))) = [] \<and>
   handleSendMessage (run [Change ''   ''] (mount 0)) = run [Change ''   ''] (mount 0) \<and>
   onKeyPress ''Enter'' (run [Change ''   ''] (mount 0)) = run [Change ''   ''] (mount 0) \<and>
   sendButton_onClick (run [Change ''   ''] (mount 0)) = run [Change ''   ''] (mount 0) \<and>
   inputMessage (run [Change ''   ''] (mount 0)) = ''   ''"
proof -
  have blank: "trim (inputMessage (run [Change ''   ''] (mount 0))) = []"
    by (simp add: run_def setInputMessage_def mount_def trim_blank_iff isWhiteSpace_def)
  have draft: "inputMessage (run [Change ''   ''] (mount 0)) = ''   ''"
    by (simp add: run_def setInputMessage_def mount_def)
  show ?thesis
    using blank draft blank_draft_send_is_noop [OF blank] by simp
qed


section \<open>The state on mount\<close>

text \<open>
  C10. On mount the conversation holds exactly one message, written by the agent and
  with a non-empty greeting as its content; the draft is empty and the loading flag is
  off. Hence the first successful send, of any draft that is not blank and by either
  route, leaves a sequence of length 2.
\<close>

theorem mount_has_one_agent_greeting:
  "length (messages (mount t)) = 1 \<and>
   type_msg (hd (messages (mount t))) = agent \<and>
   content (hd (messages (mount t))) \<noteq> '''' \<and>
   inputMessage (mount t) = '''' \<and>
   \<not> isLoading (mount t) \<and>
   (trim text \<noteq> [] \<longrightarrow>
      length (messages (run [Change text, ClickSend] (mount t))) = 2 \<and>
      length (messages (run [Change text, KeyPress ''Enter''] (mount t))) = 2)"
  by (simp add: chat_defs greeting_def)

theorem mount_has_one_agent_greeting_witness:
  "trim ''Why did I spike?'' \<noteq> [] \<and>
   length (messages (mount 0)) = 1 \<and>
   length (messages (run [Change ''Why did I spike?'', ClickSend] (mount 0))) = 2 \<and>
   length (messages (run [Change ''Why did I spike?'', KeyPress ''Enter''] (mount 0))) = 2"
proof -
  have nb: "trim ''Why did I spike?'' \<noteq> []"
    by (simp add: trim_blank_iff isWhiteSpace_def)
  show ?thesis
    using nb mount_has_one_agent_greeting [of 0 "''Why did I spike?''"] by simp
qed

section \<open>Sending while a reply is pending\<close>

lemma not_blank_b: "trim ''b'' \<noteq> []"
  by (simp add: trim_blank_iff isWhiteSpace_def)

lemma not_blank_c: "trim ''c'' \<noteq> []"
  by (simp add: trim_blank_iff isWhiteSpace_def)

text \<open>The button does nothing while loading; the Enter key does not look at the flag.\<close>

lemma sendButton_noop_while_loading: "isLoading s \<Longrightarrow> sendButton_onClick s = s"
  by (simp add: sendButton_onClick_def sendButton_disabled_def)

lemma enter_key_ignores_isLoading:
  "trim (inputMessage s) \<noteq> [] \<Longrightarrow>
     onKeyPress ''Enter'' s =
       s\<lparr>messages := messages s @ [userMessage s], inputMessage := '''', isLoading := True,
         timers := timers s @ [now s + 1000]\<rparr>"
  by (simp add: onKeyPress_def handleSendMessage_def)

lemma pending_reply_example_state:
  "pending_reply_example =
     \<lparr>messages =
        [\<lparr>id_msg = ''1'', type_msg = agent, content = greeting, timestamp = 1700000000000\<rparr>,
         \<lparr>id_msg = toString 1700000000000, type_msg = user, content = ''a'',
          timestamp = 1700000000000\<rparr>],
      inputMessage = ''b'', isLoading = True, now = 1700000000000,
      timers = [1700000001000]\<rparr>"
  by (simp add: pending_reply_example_def chat_defs not_blank_a)

text \<open>
  C1, on the code. The claim is that a send while a reply is awaited does nothing, by the
  button and by the Enter key alike. In the state \<open>pending_reply_example\<close> a reply is
  awaited and the draft is ``b''. The button is disabled there and its click changes
  nothing. The Enter key runs \<open>handleSendMessage\<close>, which does not test \<open>isLoading\<close>:
  the message ``b'' is appended, the draft is cleared and a second reply timer is started.
\<close>

theorem enter_key_sends_while_awaiting_reply:
  "isLoading pending_reply_example \<and>
   inputMessage pending_reply_example = ''b'' \<and>
   timers pending_reply_example = [1700000001000] \<and>
   sendButton_onClick pending_reply_example = pending_reply_example \<and>
   onKeyPress ''Enter'' pending_reply_example \<noteq> pending_reply_example \<and>
   messages (onKeyPress ''Enter'' pending_reply_example) =
     messages pending_reply_example @
       [\<lparr>id_msg = toString 1700000000000, type_msg = user, content = ''b'',
         timestamp = 1700000000000\<rparr>] \<and>
   inputMessage (onKeyPress ''Enter'' pending_reply_example) = '''' \<and>
   timers (onKeyPress ''Enter'' pending_reply_example) = [1700000001000, 1700000001000]"
  unfolding pending_reply_example_state
  by (simp add: handleSendMessage_def onKeyPress_def sendButton_onClick_def
      sendButton_disabled_def userMessage_def not_blank_b)


section \<open>One send, one reply\<close>

text \<open>
  From a state in which no reply timer is pending, a send of a draft that is not blank
  appends the user's message with the draft as content, clears the draft and sets the
  loading flag; 1000 ms later exactly the agent's reply has been appended behind it, the
  flag is off and no timer is left.
\<close>

lemma send_and_reply_when_idle:
  assumes "timers s = []" and "trim (inputMessage s) \<noteq> []"
  shows "messages (handleSendMessage s) =
           messages s @
             [\<lparr>id_msg = toString (now s), type_msg = user, content = inputMessage s,
               timestamp = now s\<rparr>]"
    and "inputMessage (handleSendMessage s) = ''''"
    and "isLoading (handleSendMessage s)"
    and "messages (elapse 1000 (handleSendMessage s)) =
           messages (handleSendMessage s) @
             [\<lparr>id_msg = toString (now s + 1001), type_msg = agent, content = demoResponse,
               timestamp = now s + 1000\<rparr>]"
    and "\<not> isLoading (elapse 1000 (handleSendMessage s))"
    and "timers (elapse 1000 (handleSendMessage s)) = []"
  using assms by (simp_all add: chat_defs Let_def add.commute)

lemma overlapping_replies_example_state:
  "overlapping_replies_example =
     \<lparr>messages =
        [\<lparr>id_msg = ''1'', type_msg = agent, content = greeting, timestamp = 1700000000000\<rparr>,
         \<lparr>id_msg = toString 1700000000000, type_msg = user, content = ''a'',
          timestamp = 1700000000000\<rparr>,
         \<lparr>id_msg = toString 1700000000500, type_msg = user, content = ''b'',
          timestamp = 1700000000500\<rparr>,
         \<lparr>id_msg = toString 1700000001001, type_msg = agent, content = demoResponse,
          timestamp = 1700000001000\<rparr>],
      inputMessage = ''c'', isLoading = False, now = 1700000001200,
      timers = [1700000001500]\<rparr>"
  by (simp add: overlapping_replies_example_def chat_defs not_blank_a not_blank_b Let_def)

text \<open>
  C2, on the code. The claim is that from every state whose loading flag is off a send
  appends one message at once and that after 1000 ms exactly one further message, the
  agent's, has been appended and the flag is off again. The state
  \<open>overlapping_replies_example\<close> has the flag off and the draft ``c'', and the reply to
  ``b'', sent with the Enter key during the first wait, is still pending. A click on the
  button appends ``c'' (4 messages become 5). After 300 ms the reply to ``b'' arrives
  and turns the flag off although the reply to ``c'' is still pending; after 1000 ms two
  agent messages stand behind ``c'' (7 messages).
\<close>

theorem overlapping_replies_two_after_send:
  "\<not> isLoading overlapping_replies_example \<and>
   trim (inputMessage overlapping_replies_example) \<noteq> [] \<and>
   timers overlapping_replies_example = [1700000001500] \<and>
   length (messages overlapping_replies_example) = 4 \<and>
   length (messages (sendButton_onClick overlapping_replies_example)) = 5 \<and>
   isLoading (sendButton_onClick overlapping_replies_example) \<and>
   isLoading (elapse 299 (sendButton_onClick overlapping_replies_example)) \<and>
   \<not> isLoading (elapse 300 (sendButton_onClick overlapping_replies_example)) \<and>
   timers (elapse 300 (sendButton_onClick overlapping_replies_example)) = [1700000002200] \<and>
   length (messages (elapse 1000 (sendButton_onClick overlapping_replies_example))) = 7 \<and>
   map type_msg (messages (elapse 1000 (sendButton_onClick overlapping_replies_example))) =
     [agent, user, user, agent, user, agent, agent]"
  unfolding overlapping_replies_example_state
  by (simp add: chat_defs not_blank_c Let_def)


section \<open>Message ids\<close>

lemma toString_1700000005000: "toString 1700000005000 = ''1700000005000''"
  by (simp add: toString.simps digit_def)

lemma toString_1700000006001: "toString 1700000006001 = ''1700000006001''"
  by (simp add: toString.simps digit_def)

lemma id_clash_schedule_ids:
  "map id_msg (messages (run id_clash_schedule (mount 1700000000000))) =
     [''1'', toString 1700000005000, toString 1700000006001, toString 1700000006001]"
  by (simp add: id_clash_schedule_def chat_defs not_blank_a not_blank_b Let_def)

lemma id_clash_schedule_authors:
  "map type_msg (messages (run id_clash_schedule (mount 1700000000000))) =
     [agent, user, agent, user]"
  by (simp add: id_clash_schedule_def chat_defs not_blank_a not_blank_b Let_def)

text \<open>
  C6, on the code. The claim is that the message ids of a conversation are pairwise
  distinct under every schedule. A user message takes the clock value as its id and an
  agent reply the clock value plus one, so a reply that arrives at time \<open>t\<close> and a user
  message sent at \<open>t + 1\<close> share the id. The schedule \<open>id_clash_schedule\<close> uses the
  send button only and ends with the ids below, the last two equal.
\<close>

theorem message_ids_clash:
  "map id_msg (messages (run id_clash_schedule (mount 1700000000000))) =
     [''1'', ''1700000005000'', ''1700000006001'', ''1700000006001''] \<and>
   map type_msg (messages (run id_clash_schedule (mount 1700000000000))) =
     [agent, user, agent, user] \<and>
   \<not> distinct (map id_msg (messages (run id_clash_schedule (mount 1700000000000))))"
  unfolding id_clash_schedule_ids id_clash_schedule_authors
    toString_1700000005000 toString_1700000006001
  by simp


section \<open>Simulating a meal\<close>

lemmas sim_defs =
  handleSimulate_def simulateButton_onClick_def simulateButton_disabled_def
  onTimeout_sim_def fire_sim_def elapse_sim_def handleInputChange_def preset_onClick_def
  mount_sim_def predictionChart_def

text \<open>
  C3. Simulating is a click on the Simulate Impact button. Whenever the description is
  empty, or the carbohydrates field is empty, or a simulation is already running, the
  click changes nothing: the button is disabled, and for the two empty fields the handler
  returns at its first line as well. When both fields are non-empty and no simulation is
  running, the click sets \<open>isSimulating\<close> and schedules one callback 2000 ms ahead,
  and changes nothing else.
\<close>

theorem simulate_guarded:
  "(description (mealForm s) = [] \<or> carbs (mealForm s) = [] \<or> isSimulating s \<longrightarrow>
      simulateButton_onClick s = s) \<and>
   (description (mealForm s) = [] \<or> carbs (mealForm s) = [] \<longrightarrow> handleSimulate s = s) \<and>
   (description (mealForm s) \<noteq> [] \<and> carbs (mealForm s) \<noteq> [] \<and> \<not> isSimulating s \<longrightarrow>
      simulateButton_onClick s =
        s\<lparr>isSimulating := True, timers_sim := timers_sim s @ [now_sim s + 2000]\<rparr>)"
  by (auto simp add: simulateButton_onClick_def simulateButton_disabled_def handleSimulate_def)

theorem simulate_guarded_witness:
  "description (mealForm (mount_sim 0)) = [] \<and>
   simulateButton_onClick (mount_sim 0) = mount_sim 0 \<and>
   handleSimulate (mount_sim 0) = mount_sim 0 \<and>
   description (mealForm (preset_onClick (hd presetMeals) (mount_sim 0))) \<noteq> [] \<and>
   carbs (mealForm (preset_onClick (hd presetMeals) (mount_sim 0))) \<noteq> [] \<and>
   \<not> isSimulating (preset_onClick (hd presetMeals) (mount_sim 0)) \<and>
   simulateButton_onClick (preset_onClick (hd presetMeals) (mount_sim 0)) =
     (preset_onClick (hd presetMeals) (mount_sim 0))\<lparr>isSimulating := True, timers_sim := [2000]\<rparr>"
proof -
  have empty: "description (mealForm (mount_sim 0)) = []"
    by (simp add: mount_sim_def)
  have filled:
    "description (mealForm (preset_onClick (hd presetMeals) (mount_sim 0))) \<noteq> []"
    "carbs (mealForm (preset_onClick (hd presetMeals) (mount_sim 0))) \<noteq> []"
    "\<not> isSimulating (preset_onClick (hd presetMeals) (mount_sim 0))"
    by (simp_all add: mount_sim_def preset_onClick_def presetMeals_def)
  have queue:
    "timers_sim (preset_onClick (hd presetMeals) (mount_sim 0)) = []"
    "now_sim (preset_onClick (hd presetMeals) (mount_sim 0)) = 0"
    by (simp_all add: mount_sim_def preset_onClick_def)
  show ?thesis
    using empty filled queue
      simulate_guarded [of "mount_sim 0"]
      simulate_guarded [of "preset_onClick (hd presetMeals) (mount_sim 0)"]
    by simp
qed

text \<open>
  C5. From a form that can be simulated, the click sets \<open>isSimulating\<close>; once 2000 ms
  have passed it is off again and the prediction chart is shown with \<open>predictionData\<close>.
  That series has exactly 13 points, at the minutes 0, 15, 30, ..., 180 in strictly
  increasing order, each with a predicted and a baseline value.
\<close>

theorem prediction_after_delay:
  "description (mealForm s) \<noteq> [] \<Longrightarrow> carbs (mealForm s) \<noteq> [] \<Longrightarrow> \<not> isSimulating s \<Longrightarrow>
   isSimulating (simulateButton_onClick s) \<and>
   \<not> isSimulating (elapse_sim 2000 (simulateButton_onClick s)) \<and>
   predictionChart (elapse_sim 2000 (simulateButton_onClick s)) = Some predictionData \<and>
   length predictionData = 13 \<and>
   map time predictionData = map (\<lambda>k. 15 * int k) [0..<13] \<and>
   sorted_wrt (<) (map time predictionData)"
proof (intro conjI)
  assume a: "description (mealForm s) \<noteq> []" "carbs (mealForm s) \<noteq> []" "\<not> isSimulating s"
  show "isSimulating (simulateButton_onClick s)"
    using a by (simp add: sim_defs)
  show "\<not> isSimulating (elapse_sim 2000 (simulateButton_onClick s))"
    using a by (simp add: sim_defs Let_def)
  show "predictionChart (elapse_sim 2000 (simulateButton_onClick s)) = Some predictionData"
    using a by (simp add: sim_defs Let_def)
  show "length predictionData = 13"
    by (simp add: predictionData_def)
  show "map time predictionData = map (\<lambda>k. 15 * int k) [0..<13]"
    by (simp add: predictionData_def upt_rec)
  show "sorted_wrt (<) (map time predictionData)"
    by (simp add: predictionData_def)
qed

theorem prediction_after_delay_witness:
  "description (mealForm (preset_onClick (presetMeals ! 1) (mount_sim 0))) \<noteq> [] \<and>
   carbs (mealForm (preset_onClick (presetMeals ! 1) (mount_sim 0))) \<noteq> [] \<and>
   \<not> isSimulating (preset_onClick (presetMeals ! 1) (mount_sim 0)) \<and>
   isSimulating (simulateButton_onClick (preset_onClick (presetMeals ! 1) (mount_sim 0))) \<and>
   \<not> isSimulating
       (elapse_sim 2000 (simulateButton_onClick (preset_onClick (presetMeals ! 1) (mount_sim 0)))) \<and>
   predictionChart
       (elapse_sim 2000 (simulateButton_onClick (preset_onClick (presetMeals ! 1) (mount_sim 0))))
     = Some predictionData"
proof -
  have filled:
    "description (mealForm (preset_onClick (presetMeals ! 1) (mount_sim 0))) \<noteq> []"
    "carbs (mealForm (preset_onClick (presetMeals ! 1) (mount_sim 0))) \<noteq> []"
    "\<not> isSimulating (preset_onClick (presetMeals ! 1) (mount_sim 0))"
    by (simp_all add: mount_sim_def preset_onClick_def presetMeals_def)
  show ?thesis
    using filled prediction_after_delay [OF filled] by simp
qed


section \<open>Presets\<close>

text \<open>
  C4, as the code has it. A preset button sets the description, the carbohydrates and
  the glycemic index from its preset, and sets the insulin units to the empty string; the
  rest of the component state is untouched. This holds for any preset record, in
  particular for the four fixed ones, whose resulting forms are listed.
\<close>

theorem preset_onClick_overwrites_form:
  "mealForm (preset_onClick p s) =
     \<lparr>description = name p, carbs = carbs_preset p, gi = gi_preset p, insulin = ''''\<rparr> \<and>
   preset_onClick p s = s\<lparr>mealForm := mealForm (preset_onClick p s)\<rparr> \<and>
   map (\<lambda>p. mealForm (preset_onClick p s)) presetMeals =
     [\<lparr>description = ''Oatmeal with Banana'', carbs = ''45'', gi = ''medium'', insulin = ''''\<rparr>,
      \<lparr>description = ''White Bread Toast (2 slices)'', carbs = ''30'', gi = ''high'', insulin = ''''\<rparr>,
      \<lparr>description = ''Greek Yogurt with Berries'', carbs = ''20'', gi = ''low'', insulin = ''''\<rparr>,
      \<lparr>description = ''Pasta with Tomato Sauce'', carbs = ''60'', gi = ''medium'', insulin = ''''\<rparr>]"
  by (simp add: preset_onClick_def presetMeals_def)

text \<open>
  The claim as written, that the insulin units are left as they were, fails: with 4 units
  entered, the first preset leaves the field empty.
\<close>

theorem preset_onClick_keeps_insulin_counterexample:
  "insulin (mealForm (handleInputChange Insulin ''4'' (mount_sim 0))) = ''4'' \<and>
   insulin (mealForm (preset_onClick (hd presetMeals)
                        (handleInputChange Insulin ''4'' (mount_sim 0)))) = '''' \<and>
   insulin (mealForm (preset_onClick (hd presetMeals)
                        (handleInputChange Insulin ''4'' (mount_sim 0))))
     \<noteq> insulin (mealForm (handleInputChange Insulin ''4'' (mount_sim 0)))"
  by (simp add: sim_defs presetMeals_def)


section \<open>Trends\<close>

text \<open>
  C7. The chart data and the three summary texts do not depend on the component state:
  for any two states, whatever their date range and meal filter, they are the same, and
  the chart data is the sample list \<open>glucoseData\<close>. In particular changing the start
  date, the end date or the meal filter leaves them as they were.
\<close>

theorem trends_display_ignores_filters:
  "chartData (render_trends s) = glucoseData \<and>
   chartData (render_trends s') = chartData (render_trends s) \<and>
   averageGlucose (render_trends s') = averageGlucose (render_trends s) \<and>
   timeInRange (render_trends s') = timeInRange (render_trends s) \<and>
   glucoseVariability (render_trends s') = glucoseVariability (render_trends s) \<and>
   chartData (render_trends (setDateRange upd s)) = chartData (render_trends s) \<and>
   chartData (render_trends (startInput_onChange v s)) = chartData (render_trends s) \<and>
   chartData (render_trends (endInput_onChange v s)) = chartData (render_trends s) \<and>
   chartData (render_trends (setMealFilter v s)) = chartData (render_trends s)"
  by (simp add: render_trends_def)


section \<open>Navigation\<close>

text \<open>
  C9. \<open>isActive\<close> holds exactly when the current path and the item's path are the same
  string; a path that only extends the other is not a match. It is a function of its two
  arguments alone.
\<close>

theorem isActive_exact_match:
  "isActive currentPath itemPath = (currentPath = itemPath) \<and>
   isActive ''/trends'' ''/trends'' \<and>
   \<not> isActive ''/trends'' ''/trends/x''"
  by (simp add: isActive_def)

end
